theory Spec2Isabelle
  imports Main "HOL-Library.AList"
begin

section \<open>Values, faults and the network\<close>

text \<open>
  The program (\<^verbatim>\<open>pokemonApi.py\<close>) fetches names and detail records from a REST
  service twice: once with coroutines joined by \<^verbatim>\<open>asyncio.gather\<close>, once with
  blocking calls in a loop. The embedding keeps both pipelines as they are written.

  A decoded JSON document is a \<open>json\<close> value. An object is an association list read with
  \<open>map_of\<close>. Numbers are integers, as the service's \<^verbatim>\<open>count\<close> is; floating-point
  numbers are not part of the model.
\<close>

datatype json =
    JNull
  | JBool bool
  | JInt int
  | JStr string
  | JArr "json list"
  | JObj "(string \<times> json) list"

text \<open>
  Every way a call of the program can raise is a value: a fault of the HTTP library
  (connection error, timeout), a body that \<^verbatim>\<open>json.loads\<close> rejects, a missing key, and
  an operation on a value of the wrong type.
\<close>

datatype error = TransportError | JSONDecodeError | KeyError | TypeError

text \<open>
  A response carries its status code and its body. The body is held as what
  \<^verbatim>\<open>json.loads(response.content)\<close> gives: \<open>None\<close> when the decoder raises.
\<close>

record response =
  status_code :: int
  content :: "json option"

text \<open>
  The service is a function from the requested URL to what the HTTP call gives back:
  a fault of the transport, or a response. It is the same for both pipelines and does not
  change during a run; the time a request takes is not modelled.
\<close>

type_synonym world = "string \<Rightarrow> error + response"

text \<open>
  \<^verbatim>\<open>httpx.AsyncClient()\<close> is the one session object the program creates. A request is made
  either through it (\<^verbatim>\<open>client.get\<close>) or through no session object of the program
  (\<^verbatim>\<open>requests.get\<close>).
\<close>

datatype client = AsyncClient

text \<open>What a run does that can be observed: it prints, it requests, it opens and closes the client.\<close>

datatype event =
    Print string
  | Get "client option" string
  | Open client
  | Close client

text \<open>
  A computation is the events it emits, in order, and its outcome. A coroutine object is
  such a computation, not started yet.
\<close>

type_synonym 'a io = "event list \<times> (error + 'a)"

definition return_io :: "'a \<Rightarrow> 'a io" where
  "return_io x = ([], Inr x)"

definition lift_io :: "error + 'a \<Rightarrow> 'a io" where
  "lift_io r = ([], r)"

definition bind_io :: "'a io \<Rightarrow> ('a \<Rightarrow> 'b io) \<Rightarrow> 'b io" where
  "bind_io m f =
     (case m of
        (t, Inl e) \<Rightarrow> (t, Inl e)
      | (t, Inr x) \<Rightarrow> (case f x of (t', r) \<Rightarrow> (t @ t', r)))"

definition print :: "string \<Rightarrow> unit io" where
  "print s = ([Print s], Inr ())"

definition http_get :: "world \<Rightarrow> client option \<Rightarrow> string \<Rightarrow> response io" where
  "http_get w c url = ([Get c url], w url)"

section \<open>The Python operations the program uses\<close>

definition json_loads :: "json option \<Rightarrow> error + json" where
  "json_loads body = (case body of None \<Rightarrow> Inl JSONDecodeError | Some j \<Rightarrow> Inr j)"

text \<open>\<^verbatim>\<open>obj[key]\<close> with a string key: only a dict can be read that way.\<close>

fun subscript :: "json \<Rightarrow> string \<Rightarrow> error + json" where
  "subscript (JObj kvs) k = (case map_of kvs k of None \<Rightarrow> Inl KeyError | Some v \<Rightarrow> Inr v)"
| "subscript _ k = Inl TypeError"

text \<open>
  \<^verbatim>\<open>for x in obj\<close>: a list gives its elements, a dict its keys, a string its characters;
  nothing else is iterable.
\<close>

fun iterate :: "json \<Rightarrow> error + json list" where
  "iterate (JArr xs) = Inr xs"
| "iterate (JObj kvs) = Inr (map (\<lambda>kv. JStr (fst kv)) kvs)"
| "iterate (JStr s) = Inr (map (\<lambda>c. JStr [c]) s)"
| "iterate _ = Inl TypeError"

text \<open>\<^verbatim>\<open>offset < nb_poke\<close> with an int on the left: the right side must be a number
  (\<^verbatim>\<open>True\<close> is 1 and \<^verbatim>\<open>False\<close> is 0).\<close>

fun as_number :: "json \<Rightarrow> error + int" where
  "as_number (JInt n) = Inr n"
| "as_number (JBool b) = Inr (if b then 1 else 0)"
| "as_number _ = Inl TypeError"

text \<open>
  A dict key must be hashable, and keys that compare equal are one key: \<^verbatim>\<open>True\<close> and
  \<^verbatim>\<open>1\<close> are the same key. \<open>key\<close> is a hashable value up to that equality.
\<close>

datatype key = KNone | KInt int | KStr string

fun hashable :: "json \<Rightarrow> error + key" where
  "hashable JNull = Inr KNone"
| "hashable (JBool b) = Inr (KInt (if b then 1 else 0))"
| "hashable (JInt n) = Inr (KInt n)"
| "hashable (JStr s) = Inr (KStr s)"
| "hashable _ = Inl TypeError"

text \<open>A comprehension \<^verbatim>\<open>[f(x) for x in xs]\<close>: the first element that raises ends it.\<close>

fun comprehension :: "('a \<Rightarrow> error + 'b) \<Rightarrow> 'a list \<Rightarrow> error + 'b list" where
  "comprehension f [] = Inr []"
| "comprehension f (x # xs) =
     (case f x of
        Inl e \<Rightarrow> Inl e
      | Inr y \<Rightarrow> (case comprehension f xs of Inl e \<Rightarrow> Inl e | Inr ys \<Rightarrow> Inr (y # ys)))"

text \<open>Decimal digits of a number, as an f-string prints an int.\<close>

fun digits :: "nat \<Rightarrow> string" where
  "digits n =
     (if n < 10 then [''0123456789'' ! n]
      else digits (n div 10) @ [''0123456789'' ! (n mod 10)])"

declare digits.simps [simp del]

definition str_int :: "int \<Rightarrow> string" where
  "str_int i = (if i < 0 then ''-'' @ digits (nat (- i)) else digits (nat i))"

text \<open>
  \<^verbatim>\<open>asyncio.gather(*coroutines)\<close>: every coroutine is started, the results come back in
  the order of submission, and a coroutine that raises makes the gather raise. Which of
  several faults surfaces depends on the order of completion; the model reports the first
  in submission order, and shows the events of the coroutines in submission order.
\<close>

definition gather :: "'a io list \<Rightarrow> 'a list io" where
  "gather coroutines = (concat (map fst coroutines), comprehension snd coroutines)"

section \<open>Constants\<close>

definition POKEMON_BASE_URL :: string where
  "POKEMON_BASE_URL = ''https://pokeapi.co/api/v2/pokemon''"

definition POKE_PER_PAGE :: int where
  "POKE_PER_PAGE = 10"

definition not_200 :: string where
  "not_200 = ''Api did not respond with status code 200!''"

definition page_url :: "int \<Rightarrow> string" where
  "page_url offset =
     POKEMON_BASE_URL @ ''/?offset='' @ str_int offset @ ''&limit='' @ str_int POKE_PER_PAGE"

text \<open>
  \<^verbatim>\<open>f'{POKEMON_BASE_URL}/{name}'\<close>: the name is whatever the page held, formatted by
  Python's \<^verbatim>\<open>str\<close>. That function is the parameter \<open>fmt\<close> of the aggregators.
\<close>

definition detail_url :: "(json \<Rightarrow> string) \<Rightarrow> json \<Rightarrow> string" where
  "detail_url fmt name = POKEMON_BASE_URL @ ''/'' @ fmt name"

text \<open>
  \<open>py_str\<close> is \<^verbatim>\<open>str\<close> on the values that are not containers; the \<^verbatim>\<open>repr\<close> of
  a list or a dict is not modelled, and \<open>py_str\<close> is used on strings only, in the examples.
  The general theorems hold for every \<open>fmt\<close>.
\<close>

fun py_str :: "json \<Rightarrow> string" where
  "py_str (JStr s) = s"
| "py_str (JInt i) = str_int i"
| "py_str (JBool b) = (if b then ''True'' else ''False'')"
| "py_str JNull = ''None''"
| "py_str _ = ''...''"

section \<open>Asynchronous version\<close>

definition get_pokemon_page_async :: "world \<Rightarrow> client \<Rightarrow> string \<Rightarrow> json list io" where
  "get_pokemon_page_async w client url =
     bind_io (print (''retrieving url: '' @ url)) (\<lambda>_.
     bind_io (http_get w (Some client) url) (\<lambda>response.
       if status_code response \<noteq> 200
       then bind_io (print not_200) (\<lambda>_. return_io [])
       else
         bind_io (lift_io (json_loads (content response))) (\<lambda>json_obj.
         bind_io (lift_io (subscript json_obj ''results'')) (\<lambda>results.
         bind_io (lift_io (iterate results)) (\<lambda>pokes.
         lift_io (comprehension (\<lambda>poke. subscript poke ''name'') pokes))))))"

definition get_pokemon_details_async :: "world \<Rightarrow> client \<Rightarrow> string \<Rightarrow> json io" where
  "get_pokemon_details_async w client url =
     bind_io (print (''retrieving details from url: '' @ url)) (\<lambda>_.
     bind_io (http_get w (Some client) url) (\<lambda>response.
       if status_code response \<noteq> 200
       then bind_io (print not_200) (\<lambda>_. return_io (JObj []))
       else lift_io (json_loads (content response))))"

text \<open>Line 36: the cutoff of the pagination.\<close>

definition nb_poke :: "json \<Rightarrow> int option \<Rightarrow> error + json" where
  "nb_poke json_obj max_pokemons =
     (case max_pokemons of None \<Rightarrow> subscript json_obj ''count'' | Some n \<Rightarrow> Inr (JInt n))"

text \<open>Lines 37 to 41: one coroutine per page window, appended in offset order.\<close>

function page_coroutines ::
  "world \<Rightarrow> client \<Rightarrow> int \<Rightarrow> int \<Rightarrow> json list io list \<Rightarrow> json list io list" where
  "page_coroutines w client nb offset coroutines =
     (if offset < nb
      then page_coroutines w client nb (offset + POKE_PER_PAGE)
             (coroutines @ [get_pokemon_page_async w client (page_url offset)])
      else coroutines)"
  by pat_completeness auto
termination
  by (relation "measure (\<lambda>(w, client, nb, offset, coroutines). nat (nb - offset))")
     (auto simp: POKE_PER_PAGE_def)

declare page_coroutines.simps [simp del]

definition get_pokemon_names_async :: "world \<Rightarrow> client \<Rightarrow> int option \<Rightarrow> json list io" where
  "get_pokemon_names_async w client max_pokemons =
     bind_io (http_get w (Some client) POKEMON_BASE_URL) (\<lambda>response.
       if status_code response \<noteq> 200
       then bind_io (print not_200) (\<lambda>_. return_io [])
       else
         bind_io (lift_io (json_loads (content response))) (\<lambda>json_obj.
         bind_io (lift_io (nb_poke json_obj max_pokemons)) (\<lambda>nb_poke.
         bind_io (lift_io (as_number nb_poke)) (\<lambda>nb.
         bind_io (gather (page_coroutines w client nb 0 [])) (\<lambda>names_per_page.
         return_io (concat names_per_page))))))"

text \<open>
  Lines 104 and 105: \<^verbatim>\<open>pokemons[poke_detail['name']] = poke_detail\<close>, then the print.
  The dict is an association list in insertion order; assigning to a key that is there
  replaces its value in place.
\<close>

type_synonym pokemons = "(key \<times> json) list"

definition save_detail :: "(json \<Rightarrow> string) \<Rightarrow> pokemons \<Rightarrow> json \<Rightarrow> pokemons io" where
  "save_detail fmt pokemons poke_detail =
     bind_io (lift_io (subscript poke_detail ''name'')) (\<lambda>name.
     bind_io (lift_io (hashable name)) (\<lambda>k.
     bind_io (print (''Pokemon '' @ [CHR 0x27] @ fmt name @ [CHR 0x27] @ '' saved in dictionary...''))
       (\<lambda>_. return_io (AList.update k poke_detail pokemons))))"

fun save_all :: "(json \<Rightarrow> string) \<Rightarrow> json list \<Rightarrow> pokemons \<Rightarrow> pokemons io" where
  "save_all fmt [] pokemons = return_io pokemons"
| "save_all fmt (poke_detail # rest) pokemons =
     bind_io (save_detail fmt pokemons poke_detail) (\<lambda>pokemons'. save_all fmt rest pokemons')"

text \<open>\<^verbatim>\<open>async with httpx.AsyncClient() as client\<close>: the client is closed however the body ends.\<close>

definition with_client :: "(client \<Rightarrow> 'a io) \<Rightarrow> 'a io" where
  "with_client body =
     (case body AsyncClient of (t, r) \<Rightarrow> (Open AsyncClient # t @ [Close AsyncClient], r))"

definition get_pokemons_async :: "(json \<Rightarrow> string) \<Rightarrow> world \<Rightarrow> int \<Rightarrow> pokemons io" where
  "get_pokemons_async fmt w number =
     with_client (\<lambda>client.
       bind_io (get_pokemon_names_async w client (Some number)) (\<lambda>names.
       bind_io (gather (map (\<lambda>name. get_pokemon_details_async w client (detail_url fmt name)) names))
         (\<lambda>details. save_all fmt details [])))"

section \<open>Synchronous version\<close>

definition get_pokemon_page_sync :: "world \<Rightarrow> string \<Rightarrow> json list io" where
  "get_pokemon_page_sync w url =
     bind_io (print (''retrieving url: '' @ url)) (\<lambda>_.
     bind_io (http_get w None url) (\<lambda>response.
       if status_code response \<noteq> 200
       then bind_io (print not_200) (\<lambda>_. return_io [])
       else
         bind_io (lift_io (json_loads (content response))) (\<lambda>json_obj.
         bind_io (lift_io (subscript json_obj ''results'')) (\<lambda>results.
         bind_io (lift_io (iterate results)) (\<lambda>pokes.
         lift_io (comprehension (\<lambda>poke. subscript poke ''name'') pokes))))))"

definition get_pokemon_details_sync :: "world \<Rightarrow> string \<Rightarrow> json io" where
  "get_pokemon_details_sync w url =
     bind_io (print (''retrieving details from url: '' @ url)) (\<lambda>_.
     bind_io (http_get w None url) (\<lambda>response.
       if status_code response \<noteq> 200
       then bind_io (print not_200) (\<lambda>_. return_io (JObj []))
       else lift_io (json_loads (content response))))"

text \<open>Lines 133 to 139: the loop that extends \<^verbatim>\<open>names\<close> page by page.\<close>

function names_loop :: "world \<Rightarrow> int \<Rightarrow> int \<Rightarrow> json list \<Rightarrow> json list io" where
  "names_loop w nb offset names =
     (if offset < nb
      then
        (case get_pokemon_page_sync w (page_url offset) of
           (t, Inl e) \<Rightarrow> (t, Inl e)
         | (t, Inr page) \<Rightarrow>
             (case names_loop w nb (offset + POKE_PER_PAGE) (names @ page) of
                (t', r) \<Rightarrow> (t @ t', r)))
      else return_io names)"
  by pat_completeness auto
termination
  by (relation "measure (\<lambda>(w, nb, offset, names). nat (nb - offset))")
     (auto simp: POKE_PER_PAGE_def)

declare names_loop.simps [simp del]

definition get_pokemon_names_sync :: "world \<Rightarrow> int option \<Rightarrow> json list io" where
  "get_pokemon_names_sync w max_pokemons =
     bind_io (http_get w None POKEMON_BASE_URL) (\<lambda>response.
       if status_code response \<noteq> 200
       then bind_io (print not_200) (\<lambda>_. return_io [])
       else
         bind_io (lift_io (json_loads (content response))) (\<lambda>json_obj.
         bind_io (lift_io (nb_poke json_obj max_pokemons)) (\<lambda>nb_poke.
         bind_io (lift_io (as_number nb_poke)) (\<lambda>nb.
         names_loop w nb 0 []))))"

text \<open>Lines 192 to 195: fetch and store, one name after the other.\<close>

fun details_loop :: "(json \<Rightarrow> string) \<Rightarrow> world \<Rightarrow> json list \<Rightarrow> pokemons \<Rightarrow> pokemons io" where
  "details_loop fmt w [] pokemons = return_io pokemons"
| "details_loop fmt w (name # rest) pokemons =
     bind_io (get_pokemon_details_sync w (detail_url fmt name)) (\<lambda>poke_detail.
     bind_io (save_detail fmt pokemons poke_detail) (\<lambda>pokemons'.
     details_loop fmt w rest pokemons'))"

definition get_pokemons_sync :: "(json \<Rightarrow> string) \<Rightarrow> world \<Rightarrow> int \<Rightarrow> pokemons io" where
  "get_pokemons_sync fmt w number =
     bind_io (get_pokemon_names_sync w (Some number)) (\<lambda>names. details_loop fmt w names [])"

section \<open>Auxiliary notions for the statements\<close>

text \<open>The outcome of a computation without the identity of the fault: \<open>None\<close> when it raises.\<close>

definition outcome :: "'a io \<Rightarrow> 'a option" where
  "outcome m = (case snd m of Inl e \<Rightarrow> None | Inr x \<Rightarrow> Some x)"

text \<open>The URLs a trace requests, in order.\<close>

fun requests :: "event list \<Rightarrow> string list" where
  "requests [] = []"
| "requests (Get c url # t) = url # requests t"
| "requests (e # t) = requests t"

text \<open>The offsets the two loops visit, starting from \<open>offset\<close>.\<close>

function window_offsets :: "int \<Rightarrow> int \<Rightarrow> int list" where
  "window_offsets nb offset =
     (if offset < nb then offset # window_offsets nb (offset + POKE_PER_PAGE) else [])"
  by pat_completeness auto
termination
  by (relation "measure (\<lambda>(nb, offset). nat (nb - offset))") (auto simp: POKE_PER_PAGE_def)

declare window_offsets.simps [simp del]

subsection \<open>The Name Lister as the specification words it\<close>

text \<open>
  The range from 0 up to the cutoff, cut into windows of the page size: the offsets
  0, 10, 20, ... below the cutoff, that is \<open>\<lceil>cutoff / 10\<rceil>\<close> windows (none when the cutoff
  is not positive).
\<close>

definition page_windows :: "int \<Rightarrow> int list" where
  "page_windows cutoff = map (\<lambda>i. POKE_PER_PAGE * int i) [0..<nat ((cutoff + 9) div 10)]"

text \<open>The names of one page, as the page fetcher returns them.\<close>

definition page_names :: "world \<Rightarrow> int \<Rightarrow> error + json list" where
  "page_names w offset = snd (get_pokemon_page_sync w (page_url offset))"

text \<open>The names of the pages of all windows, concatenated in page order.\<close>

definition pages_in_order :: "world \<Rightarrow> int \<Rightarrow> json list option" where
  "pages_in_order w cutoff =
     (case comprehension (page_names w) (page_windows cutoff) of
        Inl e \<Rightarrow> None
      | Inr pages \<Rightarrow> Some (concat pages))"

text \<open>
  The contract of the Name Lister: the root is fetched; a root that does not answer 200
  gives no names; otherwise the cutoff is the caller's maximum, or the root's count when
  there is none, and the result is the names of the pages in page order.
\<close>

definition names_spec :: "world \<Rightarrow> int option \<Rightarrow> json list option" where
  "names_spec w max_pokemons =
     (case w POKEMON_BASE_URL of
        Inl e \<Rightarrow> None
      | Inr root \<Rightarrow>
          if status_code root \<noteq> 200 then Some []
          else
            (case content root of
               None \<Rightarrow> None
             | Some json_obj \<Rightarrow>
                 (case nb_poke json_obj max_pokemons of
                    Inl e \<Rightarrow> None
                  | Inr cutoff \<Rightarrow>
                      (case as_number cutoff of
                         Inl e \<Rightarrow> None
                       | Inr nb \<Rightarrow> pages_in_order w nb))))"

subsection \<open>Records and their keys\<close>

text \<open>The key under which line 104 stores a record: its own \<^verbatim>\<open>name\<close>, hashed.\<close>

definition name_key :: "json \<Rightarrow> error + key" where
  "name_key poke_detail =
     (case subscript poke_detail ''name'' of Inl e \<Rightarrow> Inl e | Inr name \<Rightarrow> hashable name)"

text \<open>
  The detail records a run fetches, in the order of the names: what the gather of line 103
  returns, and the values \<^verbatim>\<open>poke_detail\<close> takes in the loop of line 192.
\<close>

definition fetched_details :: "(json \<Rightarrow> string) \<Rightarrow> world \<Rightarrow> int \<Rightarrow> json list" where
  "fetched_details fmt w number =
     (case snd (get_pokemon_names_sync w (Some number)) of
        Inl e \<Rightarrow> []
      | Inr names \<Rightarrow>
          (case comprehension (\<lambda>name. snd (get_pokemon_details_sync w (detail_url fmt name))) names of
             Inl e \<Rightarrow> []
           | Inr details \<Rightarrow> details))"

text \<open>The last record of a list that is stored under the key \<open>k\<close>, if there is one.\<close>

fun last_named :: "key \<Rightarrow> json list \<Rightarrow> json option" where
  "last_named k [] = None"
| "last_named k (d # ds) =
     (case last_named k ds of
        Some d' \<Rightarrow> Some d'
      | None \<Rightarrow> if name_key d = Inr k then Some d else None)"

subsection \<open>Sessions in a trace\<close>

text \<open>Every request of the trace goes through \<open>v\<close>, and no client is opened or closed.\<close>

fun only_via :: "client option \<Rightarrow> event list \<Rightarrow> bool" where
  "only_via v [] = True"
| "only_via v (Print s # t) = only_via v t"
| "only_via v (Get c url # t) = (c = v \<and> only_via v t)"
| "only_via v (e # t) = False"

text \<open>
  One shared session for the run: the trace opens a client first, closes it last, and
  every request in between goes through that client.
\<close>

fun one_session :: "event list \<Rightarrow> bool" where
  "one_session (Open c # t) = (t \<noteq> [] \<and> last t = Close c \<and> only_via (Some c) (butlast t))"
| "one_session t = False"

subsection \<open>Services for the examples\<close>

text \<open>A success with a decoded body, and a bare status.\<close>

definition ok :: "json \<Rightarrow> error + response" where
  "ok j = Inr \<lparr>status_code = 200, content = Some j\<rparr>"

definition status :: "int \<Rightarrow> error + response" where
  "status s = Inr \<lparr>status_code = s, content = None\<rparr>"

text \<open>A service given by a table of URLs; any other URL answers 404.\<close>

definition service :: "(string \<times> (error + response)) list \<Rightarrow> world" where
  "service table url = (case map_of table url of None \<Rightarrow> status 404 | Some r \<Rightarrow> r)"

definition named :: "string \<Rightarrow> json" where
  "named s = JObj [(''name'', JStr s)]"

definition listing :: "int \<Rightarrow> string list \<Rightarrow> json" where
  "listing n names = JObj [(''count'', JInt n), (''results'', JArr (map named names))]"

text \<open>Three pages holding a, b; c, d; e, and a count of 25.\<close>

definition pages_world :: world where
  "pages_world = service
     [(POKEMON_BASE_URL, ok (listing 25 [])),
      (page_url 0, ok (listing 25 [''a'', ''b''])),
      (page_url 10, ok (listing 25 [''c'', ''d''])),
      (page_url 20, ok (listing 25 [''e'']))]"

text \<open>A count of 3, one page with a, b, c, and a detail record for each.\<close>

definition abc_world :: world where
  "abc_world = service
     [(POKEMON_BASE_URL, ok (listing 3 [])),
      (page_url 0, ok (listing 3 [''a'', ''b'', ''c''])),
      (detail_url py_str (JStr ''a''), ok (named ''a'')),
      (detail_url py_str (JStr ''b''), ok (named ''b'')),
      (detail_url py_str (JStr ''c''), ok (named ''c''))]"

text \<open>Every URL answers 200 with the same ten names and a count of 1302.\<close>

definition full_world :: world where
  "full_world url =
     ok (listing 1302 [''n0'', ''n1'', ''n2'', ''n3'', ''n4'', ''n5'', ''n6'', ''n7'', ''n8'', ''n9''])"

text \<open>Two names are listed; the detail request for the first answers 404.\<close>

definition missing_world :: world where
  "missing_world = service
     [(POKEMON_BASE_URL, ok (listing 2 [])),
      (page_url 0, ok (listing 2 [''a'', ''b''])),
      (detail_url py_str (JStr ''b''), ok (named ''b''))]"

text \<open>One name is listed, and its detail request answers 404.\<close>

definition lost_world :: world where
  "lost_world = service
     [(POKEMON_BASE_URL, ok (listing 1 [])),
      (page_url 0, ok (listing 1 [''a'']))]"

text \<open>Two names are listed; their records differ and carry the same name.\<close>

definition first_x :: json where
  "first_x = JObj [(''name'', JStr ''x''), (''id'', JInt 1)]"

definition second_x :: json where
  "second_x = JObj [(''name'', JStr ''x''), (''id'', JInt 2)]"

definition twin_world :: world where
  "twin_world = service
     [(POKEMON_BASE_URL, ok (listing 2 [])),
      (page_url 0, ok (listing 2 [''a'', ''b''])),
      (detail_url py_str (JStr ''a''), ok first_x),
      (detail_url py_str (JStr ''b''), ok second_x)]"

text \<open>The root answers 200 with an object that has no count.\<close>

definition countless_world :: world where
  "countless_world = service
     [(POKEMON_BASE_URL, ok (JObj [])),
      (page_url 0, ok (listing 1 [''a'']))]"

text \<open>Nothing answers 200.\<close>

definition down_world :: world where
  "down_world = service []"

section \<open>Basic facts\<close>

lemma snd_bind_io:
  "snd (bind_io m f) = (case snd m of Inl e \<Rightarrow> Inl e | Inr x \<Rightarrow> snd (f x))"
  by (cases m) (auto simp: bind_io_def split: sum.splits prod.splits)

lemma fst_bind_io:
  "fst (bind_io m f) = (case snd m of Inl e \<Rightarrow> fst m | Inr x \<Rightarrow> fst m @ fst (f x))"
  by (cases m) (auto simp: bind_io_def split: sum.splits prod.splits)

lemma snd_simps [simp]:
  "snd (return_io x) = Inr x" "snd (lift_io r) = r" "snd (print s) = Inr ()"
  "snd (http_get w c url) = w url"
  by (simp_all add: return_io_def lift_io_def print_def http_get_def)

lemma fst_simps [simp]:
  "fst (return_io x) = []" "fst (lift_io r) = []" "fst (print s) = [Print s]"
  "fst (http_get w c url) = [Get c url]"
  by (simp_all add: return_io_def lift_io_def print_def http_get_def)

lemma snd_gather: "snd (gather cs) = comprehension snd cs"
  by (simp add: gather_def)

lemma fst_gather: "fst (gather cs) = concat (map fst cs)"
  by (simp add: gather_def)

lemma comprehension_map: "comprehension f (map g xs) = comprehension (\<lambda>x. f (g x)) xs"
  by (induction xs) (auto split: sum.splits)

lemma comprehension_cong:
  "(\<And>x. x \<in> set xs \<Longrightarrow> f x = g x) \<Longrightarrow> comprehension f xs = comprehension g xs"
  by (induction xs) (auto split: sum.splits)

lemma comprehension_length: "comprehension f xs = Inr ys \<Longrightarrow> length ys = length xs"
  by (induction xs arbitrary: ys) (auto split: sum.splits)

lemma snd_with_client: "snd (with_client body) = snd (body AsyncClient)"
  by (simp add: with_client_def split: prod.splits)

lemma fst_with_client:
  "fst (with_client body) = Open AsyncClient # fst (body AsyncClient) @ [Close AsyncClient]"
  by (simp add: with_client_def split: prod.splits)

subsection \<open>The fetchers of the two versions differ in the client only\<close>

lemma snd_page_async: "snd (get_pokemon_page_async w c url) = snd (get_pokemon_page_sync w url)"
  by (simp add: get_pokemon_page_async_def get_pokemon_page_sync_def snd_bind_io
      split: sum.splits)

lemma snd_details_async:
  "snd (get_pokemon_details_async w c url) = snd (get_pokemon_details_sync w url)"
  by (simp add: get_pokemon_details_async_def get_pokemon_details_sync_def snd_bind_io
      split: sum.splits)

subsection \<open>The two pagination loops\<close>

lemma page_coroutines_eq:
  "page_coroutines w c nb offset cs =
     cs @ map (\<lambda>off. get_pokemon_page_async w c (page_url off)) (window_offsets nb offset)"
proof (induction w c nb offset cs rule: page_coroutines.induct)
  case (1 w c nb offset cs)
  show ?case
  proof (cases "offset < nb")
    case True
    with "1" show ?thesis
      by (subst page_coroutines.simps, subst window_offsets.simps) simp
  next
    case False
    then show ?thesis
      by (subst page_coroutines.simps, subst window_offsets.simps) simp
  qed
qed

lemma snd_names_loop:
  "snd (names_loop w nb offset names) =
     (case comprehension (\<lambda>off. snd (get_pokemon_page_sync w (page_url off)))
             (window_offsets nb offset) of
        Inl e \<Rightarrow> Inl e
      | Inr pages \<Rightarrow> Inr (names @ concat pages))"
proof (induction w nb offset names rule: names_loop.induct)
  case (1 w nb offset names)
  show ?case
  proof (cases "offset < nb")
    case True
    obtain t r where page: "get_pokemon_page_sync w (page_url offset) = (t, r)"
      by (cases "get_pokemon_page_sync w (page_url offset)")
    show ?thesis
    proof (cases r)
      case (Inl e)
      with True page show ?thesis
        by (subst names_loop.simps, subst window_offsets.simps) simp
    next
      case (Inr p)
      with True page "1.IH" [OF True page [symmetric] Inr] show ?thesis
        by (subst names_loop.simps, subst window_offsets.simps)
           (auto split: prod.splits sum.splits)
    qed
  next
    case False
    then show ?thesis
      by (subst names_loop.simps, subst window_offsets.simps) simp
  qed
qed

subsection \<open>Outcomes\<close>

lemma outcome_bind_io:
  "outcome (bind_io m f) = (case snd m of Inl e \<Rightarrow> None | Inr x \<Rightarrow> outcome (f x))"
  by (simp add: outcome_def snd_bind_io split: sum.splits)

lemma outcome_return_io [simp]: "outcome (return_io x) = Some x"
  by (simp add: outcome_def)

subsection \<open>The windows of the loops are the page windows\<close>

lemma window_offsets_closed:
  "window_offsets nb offset =
     map (\<lambda>i. offset + POKE_PER_PAGE * int i) [0..<nat ((nb - offset + 9) div 10)]"
proof (induction nb offset rule: window_offsets.induct)
  case (1 nb offset)
  show ?case
  proof (cases "offset < nb")
    case True
    then have "nat ((nb - offset + 9) div 10) = Suc (nat ((nb - (offset + 10) + 9) div 10))"
      by linarith
    with True "1" show ?thesis
      by (subst window_offsets.simps)
         (simp add: POKE_PER_PAGE_def upt_conv_Cons map_Suc_upt [symmetric] del: upt_Suc)
  next
    case False
    then have "nat ((nb - offset + 9) div 10) = 0"
      by simp
    with False show ?thesis
      by (subst window_offsets.simps) simp
  qed
qed

lemma window_offsets_page_windows: "window_offsets nb 0 = page_windows nb"
  by (simp add: window_offsets_closed page_windows_def)

subsection \<open>The two pipelines\<close>

lemma snd_names_async:
  "snd (get_pokemon_names_async w c mx) = snd (get_pokemon_names_sync w mx)"
  by (simp add: get_pokemon_names_async_def get_pokemon_names_sync_def snd_bind_io snd_gather
      page_coroutines_eq comprehension_map snd_page_async snd_names_loop
      split: sum.splits)

lemma outcome_names_sync: "outcome (get_pokemon_names_sync w mx) = names_spec w mx"
  by (simp add: outcome_def get_pokemon_names_sync_def names_spec_def pages_in_order_def
      page_names_def [abs_def] window_offsets_page_windows
      snd_bind_io snd_names_loop json_loads_def split: sum.splits option.splits)

lemma outcome_save_all_gather:
  "(case comprehension (\<lambda>name. snd (get_pokemon_details_sync w (detail_url fmt name))) names of
      Inl e \<Rightarrow> None
    | Inr details \<Rightarrow> outcome (save_all fmt details pokemons)) =
   outcome (details_loop fmt w names pokemons)"
proof (induction names arbitrary: pokemons)
  case Nil
  show ?case by simp
next
  case (Cons name rest)
  show ?case
    by (simp add: outcome_bind_io Cons.IH [symmetric] split: sum.splits)
qed

lemma outcome_pokemons_async:
  "outcome (get_pokemons_async fmt w n) =
    (case snd (get_pokemon_names_sync w (Some n)) of
       Inl e \<Rightarrow> None
     | Inr names \<Rightarrow>
         (case comprehension (\<lambda>name. snd (get_pokemon_details_sync w (detail_url fmt name))) names of
            Inl e \<Rightarrow> None
          | Inr details \<Rightarrow> outcome (save_all fmt details [])))"
  by (simp add: outcome_def get_pokemons_async_def snd_with_client
      snd_bind_io snd_gather comprehension_map snd_details_async snd_names_async
      split: sum.splits)

lemma outcome_pokemons:
  "outcome (get_pokemons_async fmt w n) = outcome (get_pokemons_sync fmt w n)"
  by (simp add: outcome_pokemons_async get_pokemons_sync_def outcome_bind_io
      outcome_save_all_gather split: sum.splits)

lemma pages_example:
  "outcome (get_pokemon_names_sync pages_world None) =
     Some [JStr ''a'', JStr ''b'', JStr ''c'', JStr ''d'', JStr ''e'']"
  by code_simp

lemma abc_example:
  "outcome (get_pokemons_sync py_str abc_world 3) =
     Some [(KStr ''a'', named ''a''), (KStr ''b'', named ''b''), (KStr ''c'', named ''c'')]"
  by code_simp

section \<open>The claims\<close>

text \<open>
  Claim C1. Whatever the service answers to the page and detail requests, the concurrent
  pipeline and the sequential pipeline produce the same name list, which is the names of the
  pages concatenated in page (offset) order (\<open>names_spec\<close>), and the same final mapping
  from name to record; a run of one raises exactly when the run of the other does. With
  pages holding a, b; c, d; e both listers return a, b, c, d, e, and with a count of 3 and
  the records of a, b and c both aggregators return the mapping of each name to its record.
\<close>

theorem pipelines_agree:
  "outcome (get_pokemon_names_async w client max_pokemons) = names_spec w max_pokemons
   \<and> outcome (get_pokemon_names_sync w max_pokemons) = names_spec w max_pokemons
   \<and> outcome (get_pokemons_async fmt w number) = outcome (get_pokemons_sync fmt w number)
   \<and> outcome (get_pokemon_names_async pages_world AsyncClient None) =
       Some [JStr ''a'', JStr ''b'', JStr ''c'', JStr ''d'', JStr ''e'']
   \<and> outcome (get_pokemon_names_sync pages_world None) =
       Some [JStr ''a'', JStr ''b'', JStr ''c'', JStr ''d'', JStr ''e'']
   \<and> outcome (get_pokemons_async py_str abc_world 3) =
       Some [(KStr ''a'', named ''a''), (KStr ''b'', named ''b''), (KStr ''c'', named ''c'')]
   \<and> outcome (get_pokemons_sync py_str abc_world 3) =
       Some [(KStr ''a'', named ''a''), (KStr ''b'', named ''b''), (KStr ''c'', named ''c'')]"
proof -
  have names: "outcome (get_pokemon_names_async w' c mx) = outcome (get_pokemon_names_sync w' mx)"
    for w' c mx
    by (simp add: outcome_def snd_names_async)
  have "outcome (get_pokemon_names_async w client max_pokemons) = names_spec w max_pokemons"
    by (simp only: names outcome_names_sync)
  moreover have "outcome (get_pokemon_names_sync w max_pokemons) = names_spec w max_pokemons"
    by (rule outcome_names_sync)
  moreover have "outcome (get_pokemons_async fmt w number) = outcome (get_pokemons_sync fmt w number)"
    by (rule outcome_pokemons)
  moreover have "outcome (get_pokemon_names_async pages_world AsyncClient None) =
       Some [JStr ''a'', JStr ''b'', JStr ''c'', JStr ''d'', JStr ''e'']"
    by (simp only: names pages_example)
  moreover have "outcome (get_pokemons_async py_str abc_world 3) =
       Some [(KStr ''a'', named ''a''), (KStr ''b'', named ''b''), (KStr ''c'', named ''c'')]"
    by (simp only: outcome_pokemons abc_example)
  ultimately show ?thesis
    using pages_example abc_example by blast
qed

subsection \<open>Loops over an empty range\<close>

lemma names_loop_done: "nb \<le> offset \<Longrightarrow> names_loop w nb offset names = return_io names"
  by (subst names_loop.simps) simp

lemma page_coroutines_done: "nb \<le> offset \<Longrightarrow> page_coroutines w c nb offset cs = cs"
  by (subst page_coroutines.simps) simp

lemma gather_Nil [simp]: "gather [] = return_io []"
  by (simp add: gather_def return_io_def)

lemma bind_io_simps [simp]:
  "bind_io (t, Inl e) f = (t, Inl e)"
  "bind_io (t, Inr x) f = (t @ fst (f x), snd (f x))"
  "bind_io (return_io x) f = f x"
  "bind_io (lift_io (Inr x)) f = f x"
  "bind_io (lift_io (Inl e)) f = ([], Inl e)"
  by (simp_all add: bind_io_def return_io_def lift_io_def split: prod.splits)

lemma bind_io_http_get:
  "bind_io (http_get w c url) f =
     (case w url of
        Inl e \<Rightarrow> ([Get c url], Inl e)
      | Inr response \<Rightarrow> (Get c url # fst (f response), snd (f response)))"
  by (simp add: http_get_def split: sum.splits)

lemma bind_io_print: "bind_io (print s) f = (Print s # fst (f ()), snd (f ()))"
  by (simp add: print_def)

subsection \<open>Pages of a given size\<close>

lemma comprehension_all:
  "(\<And>x. x \<in> set xs \<Longrightarrow> \<exists>y. f x = Inr y \<and> P y) \<Longrightarrow>
   \<exists>ys. comprehension f xs = Inr ys \<and> length ys = length xs \<and> (\<forall>y \<in> set ys. P y)"
proof (induction xs)
  case Nil
  show ?case by simp
next
  case (Cons x xs)
  from Cons.prems obtain y where y: "f x = Inr y" "P y"
    by auto
  from Cons obtain ys where "comprehension f xs = Inr ys" "length ys = length xs" "\<forall>y \<in> set ys. P y"
    by auto
  with y show ?case
    by simp
qed

lemma length_concat_const: "(\<forall>ys \<in> set yss. length ys = n) \<Longrightarrow> length (concat yss) = n * length yss"
  by (induction yss) simp_all

lemma snd_names_sync_root:
  assumes "w POKEMON_BASE_URL = Inr root" "status_code root = 200" "content root = Some json_obj"
    "nb_poke json_obj max_pokemons = Inr (JInt N)"
  shows "snd (get_pokemon_names_sync w max_pokemons) =
     (case comprehension (page_names w) (page_windows N) of
        Inl e \<Rightarrow> Inl e
      | Inr pages \<Rightarrow> Inr (concat pages))"
  using assms
  by (simp add: get_pokemon_names_sync_def snd_bind_io json_loads_def snd_names_loop
      window_offsets_page_windows page_names_def [abs_def] split: sum.splits)

text \<open>
  Claim C2. When the root answers and every page of the windows below the cutoff N holds
  exactly 10 names, both listers return the names of all \<open>\<lceil>N / 10\<rceil>\<close> pages (written
  \<open>(N + 9) div 10\<close>), ten for each: exactly N names when N is a positive multiple of 10, and
  more than N names when N is not a multiple of 10, the last page not being trimmed.
\<close>

theorem names_count:
  assumes root: "w POKEMON_BASE_URL = Inr root" "status_code root = 200"
      "content root = Some json_obj"
    and cutoff: "nb_poke json_obj max_pokemons = Inr (JInt N)"
    and full: "\<And>offset. offset \<in> set (page_windows N) \<Longrightarrow>
      \<exists>names. page_names w offset = Inr names \<and> length names = 10"
  shows "\<exists>pages names.
      comprehension (page_names w) (page_windows N) = Inr pages
    \<and> length pages = nat ((N + 9) div 10)
    \<and> names = concat pages
    \<and> snd (get_pokemon_names_sync w max_pokemons) = Inr names
    \<and> snd (get_pokemon_names_async w client max_pokemons) = Inr names
    \<and> length names = 10 * nat ((N + 9) div 10)
    \<and> (0 < N \<and> N mod 10 = 0 \<longrightarrow> int (length names) = N)
    \<and> (N mod 10 \<noteq> 0 \<longrightarrow> N < int (length names))"
proof -
  from comprehension_all [of "page_windows N" "page_names w" "\<lambda>names. length names = 10"] full
  obtain pages where pages: "comprehension (page_names w) (page_windows N) = Inr pages"
    "length pages = length (page_windows N)" "\<forall>names \<in> set pages. length names = 10"
    by blast
  have count: "length pages = nat ((N + 9) div 10)"
    using pages(2) by (simp add: page_windows_def)
  have len: "length (concat pages) = 10 * nat ((N + 9) div 10)"
    using length_concat_const [OF pages(3)] count by simp
  have sync: "snd (get_pokemon_names_sync w max_pokemons) = Inr (concat pages)"
    using snd_names_sync_root [of w root json_obj max_pokemons N] root cutoff pages(1) by simp
  have multiple: "0 < N \<and> N mod 10 = 0 \<longrightarrow> int (10 * nat ((N + 9) div 10)) = N"
    by auto
  have more: "N mod 10 \<noteq> 0 \<longrightarrow> N < int (10 * nat ((N + 9) div 10))"
  proof (cases "0 \<le> N")
    case True
    then have "int (10 * nat ((N + 9) div 10)) = 10 * ((N + 9) div 10)"
      by simp
    moreover have "N mod 10 \<noteq> 0 \<longrightarrow> N < 10 * ((N + 9) div 10)"
      by presburger
    ultimately show ?thesis
      by simp
  next
    case False
    then show ?thesis
      by simp
  qed
  from pages(1) count sync len multiple more show ?thesis
    by (simp add: snd_names_async)
qed

lemma page_names_full_world:
  "page_names full_world offset =
     Inr (map JStr [''n0'', ''n1'', ''n2'', ''n3'', ''n4'', ''n5'', ''n6'', ''n7'', ''n8'', ''n9''])"
  by (simp add: page_names_def get_pokemon_page_sync_def full_world_def ok_def listing_def
      named_def snd_bind_io json_loads_def)

theorem names_count_witness:
  "(\<exists>names. snd (get_pokemon_names_sync full_world (Some 95)) = Inr names
      \<and> snd (get_pokemon_names_async full_world AsyncClient (Some 95)) = Inr names
      \<and> length names = 100)
   \<and> (\<exists>names. snd (get_pokemon_names_sync full_world (Some 100)) = Inr names
      \<and> snd (get_pokemon_names_async full_world AsyncClient (Some 100)) = Inr names
      \<and> length names = 100)
   \<and> (\<exists>names. snd (get_pokemon_names_sync full_world None) = Inr names
      \<and> snd (get_pokemon_names_async full_world AsyncClient None) = Inr names
      \<and> length names = 1310)"
proof -
  let ?root = "\<lparr>status_code = 200, content = Some (listing 1302
    [''n0'', ''n1'', ''n2'', ''n3'', ''n4'', ''n5'', ''n6'', ''n7'', ''n8'', ''n9''])\<rparr>"
  let ?json = "listing 1302
    [''n0'', ''n1'', ''n2'', ''n3'', ''n4'', ''n5'', ''n6'', ''n7'', ''n8'', ''n9'']"
  have root: "full_world POKEMON_BASE_URL = Inr ?root" "status_code ?root = 200"
    "content ?root = Some ?json"
    by (simp_all add: full_world_def ok_def)
  have full: "\<exists>names. page_names full_world offset = Inr names \<and> length names = 10" for offset
    by (simp add: page_names_full_world)
  have c95: "nb_poke ?json (Some 95) = Inr (JInt 95)"
    and c100: "nb_poke ?json (Some 100) = Inr (JInt 100)"
    and call: "nb_poke ?json None = Inr (JInt 1302)"
    by (simp_all add: nb_poke_def listing_def)
  from names_count [of full_world ?root ?json "Some 95" 95 AsyncClient]
    names_count [of full_world ?root ?json "Some 100" 100 AsyncClient]
    names_count [of full_world ?root ?json None 1302 AsyncClient]
    root full c95 c100 call
  show ?thesis
    by auto
qed

text \<open>
  Claim C8. When the root request answers with a status other than 200, both listers
  request the root, print the message and return the empty list, with or without a maximum
  from the caller; both aggregators then request nothing else and return the empty mapping.
\<close>

theorem root_not_200:
  assumes "w POKEMON_BASE_URL = Inr root" and "status_code root \<noteq> 200"
  shows "get_pokemon_names_sync w max_pokemons =
      ([Get None POKEMON_BASE_URL, Print not_200], Inr [])
    \<and> get_pokemon_names_async w client max_pokemons =
      ([Get (Some client) POKEMON_BASE_URL, Print not_200], Inr [])
    \<and> get_pokemons_sync fmt w number =
      ([Get None POKEMON_BASE_URL, Print not_200], Inr [])
    \<and> get_pokemons_async fmt w number =
      ([Open AsyncClient, Get (Some AsyncClient) POKEMON_BASE_URL, Print not_200,
        Close AsyncClient], Inr [])"
proof -
  have sync: "get_pokemon_names_sync w mx = ([Get None POKEMON_BASE_URL, Print not_200], Inr [])"
    for mx
    using assms by (simp add: get_pokemon_names_sync_def bind_io_http_get bind_io_print)
  have async: "get_pokemon_names_async w c mx =
      ([Get (Some c) POKEMON_BASE_URL, Print not_200], Inr [])" for c mx
    using assms by (simp add: get_pokemon_names_async_def bind_io_http_get bind_io_print)
  have "get_pokemons_sync fmt w number = ([Get None POKEMON_BASE_URL, Print not_200], Inr [])"
    by (simp add: get_pokemons_sync_def sync return_io_def)
  moreover have "get_pokemons_async fmt w number =
      ([Open AsyncClient, Get (Some AsyncClient) POKEMON_BASE_URL, Print not_200,
        Close AsyncClient], Inr [])"
    by (simp add: get_pokemons_async_def with_client_def async return_io_def)
  ultimately show ?thesis
    using sync async by simp
qed

theorem root_not_200_witness:
  "get_pokemon_names_sync down_world (Some 100) =
      ([Get None POKEMON_BASE_URL, Print not_200], Inr [])
    \<and> get_pokemon_names_async down_world AsyncClient (Some 100) =
      ([Get (Some AsyncClient) POKEMON_BASE_URL, Print not_200], Inr [])
    \<and> get_pokemons_sync py_str down_world 100 =
      ([Get None POKEMON_BASE_URL, Print not_200], Inr [])
    \<and> get_pokemons_async py_str down_world 100 =
      ([Open AsyncClient, Get (Some AsyncClient) POKEMON_BASE_URL, Print not_200,
        Close AsyncClient], Inr [])"
proof -
  have "down_world POKEMON_BASE_URL = Inr \<lparr>status_code = 404, content = None\<rparr>"
    by (simp add: down_world_def service_def status_def)
  moreover have "status_code \<lparr>status_code = 404, content = None\<rparr> \<noteq> 200"
    by simp
  ultimately show ?thesis
    by (rule root_not_200)
qed

text \<open>
  Claim C9. When the requested number is zero or negative and the root request succeeds
  (status 200 and a body that decodes), both listers request the root only and return the
  empty list, and both aggregators request the root only and return the empty mapping.
\<close>

theorem nonpositive_number:
  assumes "w POKEMON_BASE_URL = Inr root" and "status_code root = 200"
    and "content root = Some json_obj" and "number \<le> 0"
  shows "get_pokemon_names_sync w (Some number) = ([Get None POKEMON_BASE_URL], Inr [])
    \<and> get_pokemon_names_async w client (Some number) =
      ([Get (Some client) POKEMON_BASE_URL], Inr [])
    \<and> get_pokemons_sync fmt w number = ([Get None POKEMON_BASE_URL], Inr [])
    \<and> get_pokemons_async fmt w number =
      ([Open AsyncClient, Get (Some AsyncClient) POKEMON_BASE_URL, Close AsyncClient], Inr [])"
proof -
  have sync: "get_pokemon_names_sync w (Some number) = ([Get None POKEMON_BASE_URL], Inr [])"
    using assms
    by (simp add: get_pokemon_names_sync_def bind_io_http_get json_loads_def nb_poke_def
        names_loop_done return_io_def)
  have async: "get_pokemon_names_async w c (Some number) =
      ([Get (Some c) POKEMON_BASE_URL], Inr [])" for c
    using assms
    by (simp add: get_pokemon_names_async_def bind_io_http_get json_loads_def nb_poke_def
        page_coroutines_done return_io_def)
  have "get_pokemons_sync fmt w number = ([Get None POKEMON_BASE_URL], Inr [])"
    by (simp add: get_pokemons_sync_def sync return_io_def)
  moreover have "get_pokemons_async fmt w number =
      ([Open AsyncClient, Get (Some AsyncClient) POKEMON_BASE_URL, Close AsyncClient], Inr [])"
    by (simp add: get_pokemons_async_def with_client_def async return_io_def)
  ultimately show ?thesis
    using sync async by simp
qed

theorem nonpositive_number_witness:
  "get_pokemon_names_sync abc_world (Some 0) = ([Get None POKEMON_BASE_URL], Inr [])
    \<and> get_pokemon_names_async abc_world AsyncClient (Some (- 5)) =
      ([Get (Some AsyncClient) POKEMON_BASE_URL], Inr [])
    \<and> get_pokemons_sync py_str abc_world (- 5) = ([Get None POKEMON_BASE_URL], Inr [])
    \<and> get_pokemons_async py_str abc_world 0 =
      ([Open AsyncClient, Get (Some AsyncClient) POKEMON_BASE_URL, Close AsyncClient], Inr [])"
proof -
  let ?root = "\<lparr>status_code = 200, content = Some (listing 3 [])\<rparr>"
  have root: "abc_world POKEMON_BASE_URL = Inr ?root"
    by (simp add: abc_world_def service_def ok_def)
  have ok: "status_code ?root = 200" "content ?root = Some (listing 3 [])"
    by simp_all
  have "(0::int) \<le> 0" and "(- 5::int) \<le> 0"
    by simp_all
  with root ok
    nonpositive_number [of abc_world ?root "listing 3 []" 0 AsyncClient py_str]
    nonpositive_number [of abc_world ?root "listing 3 []" "- 5" AsyncClient py_str]
  show ?thesis
    by simp
qed

subsection \<open>A request that does not answer 200\<close>

lemma page_not_200:
  assumes "w url = Inr r" and "status_code r \<noteq> 200"
  shows "get_pokemon_page_sync w url =
      ([Print (''retrieving url: '' @ url), Get None url, Print not_200], Inr [])"
    and "get_pokemon_page_async w c url =
      ([Print (''retrieving url: '' @ url), Get (Some c) url, Print not_200], Inr [])"
  using assms
  by (simp_all add: get_pokemon_page_sync_def get_pokemon_page_async_def bind_io_http_get
      bind_io_print return_io_def)

lemma details_not_200:
  assumes "w url = Inr r" and "status_code r \<noteq> 200"
  shows "get_pokemon_details_sync w url =
      ([Print (''retrieving details from url: '' @ url), Get None url, Print not_200],
       Inr (JObj []))"
    and "get_pokemon_details_async w c url =
      ([Print (''retrieving details from url: '' @ url), Get (Some c) url, Print not_200],
       Inr (JObj []))"
  using assms
  by (simp_all add: get_pokemon_details_sync_def get_pokemon_details_async_def
      bind_io_http_get bind_io_print return_io_def)

text \<open>A page that does not answer 200 adds no name and leaves the names of the other pages.\<close>

lemma failed_page_keeps_siblings:
  "snd (get_pokemon_names_sync
      (service
        [(POKEMON_BASE_URL, ok (listing 25 [])),
         (page_url 0, ok (listing 25 [''a'', ''b''])),
         (page_url 10, status 500),
         (page_url 20, ok (listing 25 [''e'']))]) None) = Inr [JStr ''a'', JStr ''b'', JStr ''e'']"
  by code_simp

text \<open>The record of a failed detail request has no name: storing it raises.\<close>

lemma save_detail_empty: "save_detail fmt pokemons (JObj []) = ([], Inl KeyError)"
  by (simp add: save_detail_def)

text \<open>
  Claim C3 (the code raises). One name is listed and its detail request answers 404. The
  detail fetcher returns the empty record, and line 104 (line 194 in the sequential
  version) then reads its \<^verbatim>\<open>name\<close>: both aggregators raise \<^verbatim>\<open>KeyError\<close> and return no
  mapping.
\<close>

theorem failed_detail_raises:
  "get_pokemon_details_sync lost_world (detail_url py_str (JStr ''a'')) =
     ([Print (''retrieving details from url: '' @ detail_url py_str (JStr ''a'')),
       Get None (detail_url py_str (JStr ''a'')), Print not_200], Inr (JObj []))
   \<and> snd (get_pokemons_sync py_str lost_world 1) = Inl KeyError
   \<and> snd (get_pokemons_async py_str lost_world 1) = Inl KeyError"
  by code_simp

text \<open>
  Claim C5 (the code raises). Two names, a and b, are listed; the detail request for a
  answers 404 and the one for b answers 200. The sequential aggregator raises
  \<^verbatim>\<open>KeyError\<close> on the empty record of a and never requests b; the concurrent aggregator
  requests both and raises as well, so the record of b reaches no mapping.
\<close>

theorem failed_detail_stops_siblings:
  "snd (get_pokemon_details_sync missing_world (detail_url py_str (JStr ''b''))) =
     Inr (named ''b'')
   \<and> requests (fst (get_pokemons_sync py_str missing_world 2)) =
     [POKEMON_BASE_URL, page_url 0, detail_url py_str (JStr ''a'')]
   \<and> snd (get_pokemons_sync py_str missing_world 2) = Inl KeyError
   \<and> requests (fst (get_pokemons_async py_str missing_world 2)) =
     [POKEMON_BASE_URL, page_url 0, detail_url py_str (JStr ''a''),
      detail_url py_str (JStr ''b'')]
   \<and> snd (get_pokemons_async py_str missing_world 2) = Inl KeyError"
  by code_simp

subsection \<open>What the insertion loop stores\<close>

lemma update_member:
  "(k', v') \<in> set (AList.update k v al) \<Longrightarrow> (k', v') = (k, v) \<or> (k', v') \<in> set al"
  by (induction al) (auto split: if_splits)

lemma snd_save_detail:
  "snd (save_detail fmt pokemons d) =
     (case name_key d of Inl e \<Rightarrow> Inl e | Inr k \<Rightarrow> Inr (AList.update k d pokemons))"
  by (simp add: save_detail_def name_key_def snd_bind_io split: sum.splits)

lemma save_all_Cons:
  "snd (save_all fmt (d # ds) pokemons) = Inr result \<Longrightarrow>
   \<exists>k. name_key d = Inr k \<and> snd (save_all fmt ds (AList.update k d pokemons)) = Inr result"
  by (auto simp: snd_bind_io snd_save_detail split: sum.splits)

lemma save_all_member:
  "snd (save_all fmt ds pokemons) = Inr result \<Longrightarrow> (k, d) \<in> set result \<Longrightarrow>
   (k, d) \<in> set pokemons \<or> (d \<in> set ds \<and> name_key d = Inr k)"
proof (induction ds arbitrary: pokemons)
  case Nil
  then show ?case by simp
next
  case (Cons x ds)
  from save_all_Cons [OF Cons.prems(1)] obtain kx where
    kx: "name_key x = Inr kx" "snd (save_all fmt ds (AList.update kx x pokemons)) = Inr result"
    by blast
  from Cons.IH [OF kx(2) Cons.prems(2)] kx(1) show ?case
    by (auto dest: update_member)
qed

lemma save_all_lookup:
  "snd (save_all fmt ds pokemons) = Inr result \<Longrightarrow> name_key d = Inr k \<Longrightarrow>
   d \<in> set ds \<or> map_of pokemons k = Some d \<Longrightarrow>
   \<forall>d' \<in> set ds. name_key d' = Inr k \<longrightarrow> d' = d \<Longrightarrow>
   map_of result k = Some d"
proof (induction ds arbitrary: pokemons)
  case Nil
  then show ?case by simp
next
  case (Cons x ds)
  from save_all_Cons [OF Cons.prems(1)] obtain kx where
    kx: "name_key x = Inr kx" "snd (save_all fmt ds (AList.update kx x pokemons)) = Inr result"
    by blast
  have same: "kx = k \<Longrightarrow> x = d"
    using Cons.prems(4) kx(1) by simp
  have "d \<in> set ds \<or> map_of (AList.update kx x pokemons) k = Some d"
    using Cons.prems(2,3) kx(1) same by (auto simp: update_conv')
  with Cons.IH [OF kx(2) Cons.prems(2)] Cons.prems(4) show ?case
    by simp
qed

lemma save_all_stored:
  "snd (save_all fmt ds pokemons) = Inr result \<Longrightarrow> d \<in> set ds \<Longrightarrow>
   \<exists>k d'. name_key d = Inr k \<and> map_of result k = Some d'"
proof (induction ds arbitrary: pokemons d)
  case Nil
  then show ?case by simp
next
  case (Cons x ds)
  from save_all_Cons [OF Cons.prems(1)] obtain kx where
    kx: "name_key x = Inr kx" "snd (save_all fmt ds (AList.update kx x pokemons)) = Inr result"
    by blast
  show ?case
  proof (cases "d \<in> set ds")
    case True
    with Cons.IH [OF kx(2)] show ?thesis by blast
  next
    case False
    with Cons.prems(2) have "d = x" by simp
    show ?thesis
    proof (cases "\<exists>d' \<in> set ds. name_key d' = Inr kx")
      case True
      then obtain d' where "d' \<in> set ds" "name_key d' = Inr kx" by blast
      with Cons.IH [OF kx(2)] kx(1) \<open>d = x\<close> show ?thesis by metis
    next
      case False
      have "map_of result kx = Some x"
        using kx False
        by (intro save_all_lookup [OF kx(2) kx(1)]) (auto simp: update_conv')
      with kx(1) \<open>d = x\<close> show ?thesis by blast
    qed
  qed
qed

lemma save_all_last:
  "snd (save_all fmt ds pokemons) = Inr result \<Longrightarrow>
   map_of result k = (case last_named k ds of None \<Rightarrow> map_of pokemons k | Some d \<Rightarrow> Some d)"
proof (induction ds arbitrary: pokemons)
  case Nil
  then show ?case by simp
next
  case (Cons x ds)
  from save_all_Cons [OF Cons.prems] obtain kx where
    kx: "name_key x = Inr kx" "snd (save_all fmt ds (AList.update kx x pokemons)) = Inr result"
    by blast
  from Cons.IH [OF kx(2)] kx(1) show ?case
    by (simp add: update_conv' split: option.splits)
qed

lemma pokemons_saved:
  assumes "snd (get_pokemons_async fmt w number) = Inr result
    \<or> snd (get_pokemons_sync fmt w number) = Inr result"
  shows "snd (save_all fmt (fetched_details fmt w number) []) = Inr result"
proof -
  have "outcome (get_pokemons_sync fmt w number) = Some result"
    if "snd (get_pokemons_sync fmt w number) = Inr result"
    using that by (simp add: outcome_def)
  moreover have "outcome (get_pokemons_async fmt w number) = Some result"
    if "snd (get_pokemons_async fmt w number) = Inr result"
    using that by (simp add: outcome_def)
  ultimately have "outcome (get_pokemons_async fmt w number) = Some result"
    using assms outcome_pokemons [of fmt w number] by auto
  then have "(case snd (get_pokemon_names_sync w (Some number)) of
       Inl e \<Rightarrow> None
     | Inr names \<Rightarrow>
         (case comprehension (\<lambda>name. snd (get_pokemon_details_sync w (detail_url fmt name))) names of
            Inl e \<Rightarrow> None
          | Inr details \<Rightarrow> outcome (save_all fmt details []))) = Some result"
    by (simp only: outcome_pokemons_async)
  then show ?thesis
    by (auto simp: fetched_details_def outcome_def split: sum.splits)
qed

text \<open>
  Claim C4, amended. In every run that returns, every key of the Result Mapping is the
  \<^verbatim>\<open>name\<close> of its own value, and that value is one of the records fetched; every record
  fetched has a name, and the mapping holds a record under that name; what the mapping holds
  under a key is the last record fetched with that name (of two records fetched under one
  name the later replaces the earlier); so for a record d fetched,
  \<^verbatim>\<open>result[d['name']] == d\<close> when no other record fetched carries the same name.
\<close>

theorem keys_are_names:
  assumes "snd (get_pokemons_async fmt w number) = Inr result
    \<or> snd (get_pokemons_sync fmt w number) = Inr result"
  shows "(\<forall>(k, d) \<in> set result. name_key d = Inr k \<and> d \<in> set (fetched_details fmt w number))
    \<and> (\<forall>d \<in> set (fetched_details fmt w number).
          \<exists>k d'. name_key d = Inr k \<and> map_of result k = Some d')
    \<and> (\<forall>k. map_of result k = last_named k (fetched_details fmt w number))
    \<and> (\<forall>d \<in> set (fetched_details fmt w number).
          (\<forall>d' \<in> set (fetched_details fmt w number). name_key d' = name_key d \<longrightarrow> d' = d) \<longrightarrow>
          (\<exists>k. name_key d = Inr k \<and> map_of result k = Some d))"
proof -
  let ?ds = "fetched_details fmt w number"
  have saved: "snd (save_all fmt ?ds []) = Inr result"
    using assms by (rule pokemons_saved)
  have keys: "\<forall>(k, d) \<in> set result. name_key d = Inr k \<and> d \<in> set ?ds"
    using save_all_member [OF saved] by auto
  have stored: "\<forall>d \<in> set ?ds. \<exists>k d'. name_key d = Inr k \<and> map_of result k = Some d'"
    using save_all_stored [OF saved] by blast
  have latest: "\<forall>k. map_of result k = last_named k ?ds"
    using save_all_last [OF saved] by (simp split: option.splits)
  have round: "\<exists>k. name_key d = Inr k \<and> map_of result k = Some d"
    if d: "d \<in> set ?ds" and only: "\<forall>d' \<in> set ?ds. name_key d' = name_key d \<longrightarrow> d' = d" for d
  proof -
    from stored d obtain k where k: "name_key d = Inr k"
      by blast
    from only k have "\<forall>d' \<in> set ?ds. name_key d' = Inr k \<longrightarrow> d' = d"
      by simp
    with save_all_lookup [OF saved k] d have "map_of result k = Some d"
      by blast
    with k show ?thesis
      by blast
  qed
  from keys stored latest round show ?thesis
    by blast
qed

theorem keys_are_names_witness:
  "snd (get_pokemons_sync py_str abc_world 3) =
     Inr [(KStr ''a'', named ''a''), (KStr ''b'', named ''b''), (KStr ''c'', named ''c'')]
   \<and> fetched_details py_str abc_world 3 = [named ''a'', named ''b'', named ''c'']
   \<and> (\<exists>k. name_key (named ''b'') = Inr k
        \<and> map_of [(KStr ''a'', named ''a''), (KStr ''b'', named ''b''), (KStr ''c'', named ''c'')] k
            = Some (named ''b''))
   \<and> fetched_details py_str twin_world 2 = [first_x, second_x]
   \<and> (\<exists>result. snd (get_pokemons_async py_str twin_world 2) = Inr result
        \<and> map_of result (KStr ''x'') = Some second_x)"
proof -
  let ?result = "[(KStr ''a'', named ''a''), (KStr ''b'', named ''b''), (KStr ''c'', named ''c'')]"
  have run: "snd (get_pokemons_sync py_str abc_world 3) = Inr ?result"
    by code_simp
  have fetched: "fetched_details py_str abc_world 3 = [named ''a'', named ''b'', named ''c'']"
    by code_simp
  have only: "\<forall>d' \<in> set (fetched_details py_str abc_world 3).
      name_key d' = name_key (named ''b'') \<longrightarrow> d' = named ''b''"
    unfolding fetched by (simp add: name_key_def named_def)
  have "named ''b'' \<in> set (fetched_details py_str abc_world 3)"
    unfolding fetched by simp
  with keys_are_names [of py_str abc_world 3 ?result] run only
  have one: "\<exists>k. name_key (named ''b'') = Inr k \<and> map_of ?result k = Some (named ''b'')"
    by blast
  have twins: "fetched_details py_str twin_world 2 = [first_x, second_x]"
    by code_simp
  have last: "last_named (KStr ''x'') [first_x, second_x] = Some second_x"
    by code_simp
  have result: "snd (get_pokemons_async py_str twin_world 2) = Inr [(KStr ''x'', second_x)]"
    by code_simp
  with keys_are_names [of py_str twin_world 2 "[(KStr ''x'', second_x)]"]
  have "map_of [(KStr ''x'', second_x)] (KStr ''x'') =
      last_named (KStr ''x'') (fetched_details py_str twin_world 2)"
    by blast
  with result twins last
  have two: "\<exists>result. snd (get_pokemons_async py_str twin_world 2) = Inr result
      \<and> map_of result (KStr ''x'') = Some second_x"
    by auto
  from run fetched one twins two show ?thesis
    by blast
qed

text \<open>
  The claim as stated fails: two names are listed whose records differ and carry the same
  name x. Both records are fetched, the mapping holds the second under x, and looking the
  first up by its own name does not give it back.
\<close>

theorem roundtrip_counterexample:
  "snd (get_pokemons_sync py_str twin_world 2) = Inr [(KStr ''x'', second_x)]
   \<and> snd (get_pokemons_async py_str twin_world 2) = Inr [(KStr ''x'', second_x)]
   \<and> fetched_details py_str twin_world 2 = [first_x, second_x]
   \<and> name_key first_x = Inr (KStr ''x'')
   \<and> map_of [(KStr ''x'', second_x)] (KStr ''x'') \<noteq> Some first_x"
  by code_simp

subsection \<open>The requests and sessions of a trace\<close>

lemma only_via_append [simp]: "only_via v (s @ t) = (only_via v s \<and> only_via v t)"
  by (induction v s rule: only_via.induct) simp_all

lemma only_via_bind_io:
  "only_via v (fst m) \<Longrightarrow> (\<And>x. only_via v (fst (f x))) \<Longrightarrow> only_via v (fst (bind_io m f))"
  by (simp add: fst_bind_io split: sum.splits)

lemma only_via_simps [simp]:
  "only_via v (fst (return_io x))" "only_via v (fst (lift_io r))" "only_via v (fst (print s))"
  "only_via v (fst (http_get w v url))"
  by simp_all

lemma only_via_concat: "(\<And>t. t \<in> set ts \<Longrightarrow> only_via v t) \<Longrightarrow> only_via v (concat ts)"
  by (induction ts) simp_all

lemma only_via_page_async: "only_via (Some c) (fst (get_pokemon_page_async w c url))"
  unfolding get_pokemon_page_async_def
  by (intro only_via_bind_io only_via_simps) (simp add: only_via_bind_io)

lemma only_via_page_sync: "only_via None (fst (get_pokemon_page_sync w url))"
  unfolding get_pokemon_page_sync_def
  by (intro only_via_bind_io only_via_simps) (simp add: only_via_bind_io)

lemma only_via_details_async: "only_via (Some c) (fst (get_pokemon_details_async w c url))"
  unfolding get_pokemon_details_async_def
  by (intro only_via_bind_io only_via_simps) (simp add: only_via_bind_io)

lemma only_via_details_sync: "only_via None (fst (get_pokemon_details_sync w url))"
  unfolding get_pokemon_details_sync_def
  by (intro only_via_bind_io only_via_simps) (simp add: only_via_bind_io)

lemma only_via_save_detail: "only_via v (fst (save_detail fmt pokemons d))"
  unfolding save_detail_def
  by (intro only_via_bind_io only_via_simps)

lemma only_via_save_all: "only_via v (fst (save_all fmt ds pokemons))"
  by (induction ds arbitrary: pokemons) (simp_all add: only_via_bind_io only_via_save_detail)

lemma only_via_names_loop: "only_via None (fst (names_loop w nb offset names))"
proof (induction w nb offset names rule: names_loop.induct)
  case (1 w nb offset names)
  show ?case
  proof (cases "offset < nb")
    case True
    obtain t r where page: "get_pokemon_page_sync w (page_url offset) = (t, r)"
      by (cases "get_pokemon_page_sync w (page_url offset)")
    with only_via_page_sync [of w "page_url offset"] have t: "only_via None t"
      by simp
    show ?thesis
    proof (cases r)
      case (Inl e)
      with True page t show ?thesis
        by (subst names_loop.simps) simp
    next
      case (Inr p)
      with True page t "1.IH" [OF True page [symmetric] Inr] show ?thesis
        by (subst names_loop.simps) (auto split: prod.splits)
    qed
  next
    case False
    then show ?thesis
      by (subst names_loop.simps) simp
  qed
qed

lemma only_via_names_sync: "only_via None (fst (get_pokemon_names_sync w mx))"
  unfolding get_pokemon_names_sync_def
  by (intro only_via_bind_io only_via_simps)
     (simp add: only_via_bind_io only_via_names_loop)

lemma only_via_gather:
  "(\<And>c. c \<in> set cs \<Longrightarrow> only_via v (fst c)) \<Longrightarrow> only_via v (fst (gather cs))"
  by (induction cs) (simp_all add: fst_gather)

lemma only_via_page_coroutines:
  "m \<in> set (page_coroutines w c nb offset []) \<Longrightarrow> only_via (Some c) (fst m)"
  using only_via_page_async [of c w] by (auto simp: page_coroutines_eq)

lemma only_via_names_async: "only_via (Some c) (fst (get_pokemon_names_async w c mx))"
  unfolding get_pokemon_names_async_def
  by (intro only_via_bind_io only_via_simps)
     (simp add: only_via_bind_io only_via_gather only_via_page_coroutines)

lemma only_via_details_loop: "only_via None (fst (details_loop fmt w names pokemons))"
  by (induction names arbitrary: pokemons)
     (simp_all add: only_via_bind_io only_via_details_sync only_via_save_detail)

lemma only_via_pokemons_sync: "only_via None (fst (get_pokemons_sync fmt w number))"
  unfolding get_pokemons_sync_def
  by (intro only_via_bind_io only_via_names_sync only_via_details_loop)

lemma one_session_with_client:
  "(\<And>c. only_via (Some c) (fst (body c))) \<Longrightarrow> one_session (fst (with_client body))"
  by (simp add: fst_with_client)

lemma not_one_session: "only_via None t \<Longrightarrow> \<not> one_session t"
  by (induction t rule: one_session.induct) simp_all

text \<open>
  Claim C6, amended. In every run the concurrent variant issues all of its requests through
  one client, opened before the first request and closed after the last. The sequential
  variant has no session object: each of its requests is a call of \<^verbatim>\<open>requests.get\<close> on
  its own, and nothing is opened or closed by the program.
\<close>

theorem session_use:
  "one_session (fst (get_pokemons_async fmt w number))
   \<and> only_via None (fst (get_pokemons_sync fmt w number))
   \<and> \<not> one_session (fst (get_pokemons_sync fmt w number))"
proof -
  have "one_session (fst (get_pokemons_async fmt w number))"
    unfolding get_pokemons_async_def
    by (intro one_session_with_client only_via_bind_io only_via_names_async only_via_save_all
        only_via_gather) (auto simp: only_via_details_async)
  with only_via_pokemons_sync [of fmt w number] not_one_session show ?thesis
    by blast
qed

theorem session_use_witness:
  "one_session (fst (get_pokemons_async py_str abc_world 3))
   \<and> only_via None (fst (get_pokemons_sync py_str abc_world 3))"
  using session_use [of py_str abc_world 3] by simp

text \<open>
  The claim as stated fails for the sequential variant: its run on the service with a, b
  and c opens no client, and its first request goes through none.
\<close>

theorem sync_session_counterexample:
  "\<not> one_session (fst (get_pokemons_sync py_str abc_world 3))
   \<and> hd (fst (get_pokemons_sync py_str abc_world 3)) = Get None POKEMON_BASE_URL
   \<and> Open AsyncClient \<notin> set (fst (get_pokemons_sync py_str abc_world 3))"
  by code_simp

lemma requests_append [simp]: "requests (s @ t) = requests s @ requests t"
  by (induction s rule: requests.induct) simp_all

lemma requests_concat: "requests (concat ts) = concat (map requests ts)"
  by (induction ts) simp_all

lemma requests_page_async: "requests (fst (get_pokemon_page_async w c url)) = [url]"
  by (simp add: get_pokemon_page_async_def bind_io_print bind_io_http_get fst_bind_io
      split: sum.splits)

lemma requests_page_sync: "requests (fst (get_pokemon_page_sync w url)) = [url]"
  by (simp add: get_pokemon_page_sync_def bind_io_print bind_io_http_get fst_bind_io
      split: sum.splits)

lemma requests_page_coroutines:
  "requests (fst (gather (page_coroutines w c nb 0 []))) = map page_url (page_windows nb)"
proof -
  have "concat (map (\<lambda>off. requests (fst (get_pokemon_page_async w c (page_url off)))) offs) =
      map page_url offs" for offs
    by (induction offs) (simp_all add: requests_page_async)
  then show ?thesis
    by (simp add: fst_gather requests_concat page_coroutines_eq window_offsets_page_windows
        comp_def)
qed

lemma requests_names_loop:
  "snd (names_loop w nb offset names) = Inr result \<Longrightarrow>
   requests (fst (names_loop w nb offset names)) = map page_url (window_offsets nb offset)"
proof (induction w nb offset names rule: names_loop.induct)
  case (1 w nb offset names)
  show ?case
  proof (cases "offset < nb")
    case True
    obtain t r where page: "get_pokemon_page_sync w (page_url offset) = (t, r)"
      by (cases "get_pokemon_page_sync w (page_url offset)")
    with requests_page_sync [of w "page_url offset"] have t: "requests t = [page_url offset]"
      by simp
    show ?thesis
    proof (cases r)
      case (Inl e)
      with True page "1.prems" show ?thesis
        by (subst (asm) names_loop.simps) simp
    next
      case (Inr p)
      from True page Inr "1.prems"
      have "snd (names_loop w nb (offset + POKE_PER_PAGE) (names @ p)) = Inr result"
        by (subst (asm) names_loop.simps) (simp split: prod.splits)
      with True page t Inr "1.IH" [OF True page [symmetric] Inr] show ?thesis
        by (subst names_loop.simps, subst window_offsets.simps) (auto split: prod.splits)
    qed
  next
    case False
    then show ?thesis
      by (subst names_loop.simps, subst window_offsets.simps) simp
  qed
qed

lemma root_requested_first:
  "\<exists>t. fst (get_pokemon_names_sync w max_pokemons) = Get None POKEMON_BASE_URL # t"
  "\<exists>t. fst (get_pokemon_names_async w client max_pokemons) =
     Get (Some client) POKEMON_BASE_URL # t"
  by (simp_all add: get_pokemon_names_sync_def get_pokemon_names_async_def bind_io_http_get
      split: sum.splits)

text \<open>
  Claim C7. In every call of a lister the root listing endpoint is requested first. When
  it answers 200 with a body whose count field is the number c, the pagination cutoff is c
  if the caller supplied no maximum and the supplied maximum otherwise: line 36 (line 132)
  yields that number, the result is the names of the pages of the windows below it, and
  the pages requested are those of the windows below it.
\<close>

theorem cutoff_choice:
  assumes root: "w POKEMON_BASE_URL = Inr root" "status_code root = 200"
      "content root = Some json_obj"
    and count: "subscript json_obj ''count'' = Inr (JInt c)"
    and cutoff: "cutoff = (case max_pokemons of None \<Rightarrow> c | Some n \<Rightarrow> n)"
  shows "(\<exists>t. fst (get_pokemon_names_sync w max_pokemons) = Get None POKEMON_BASE_URL # t)
    \<and> (\<exists>t. fst (get_pokemon_names_async w client max_pokemons) =
          Get (Some client) POKEMON_BASE_URL # t)
    \<and> nb_poke json_obj max_pokemons = Inr (JInt cutoff)
    \<and> outcome (get_pokemon_names_sync w max_pokemons) = pages_in_order w cutoff
    \<and> outcome (get_pokemon_names_async w client max_pokemons) = pages_in_order w cutoff
    \<and> requests (fst (get_pokemon_names_async w client max_pokemons)) =
          POKEMON_BASE_URL # map page_url (page_windows cutoff)
    \<and> (outcome (get_pokemon_names_sync w max_pokemons) \<noteq> None \<longrightarrow>
          requests (fst (get_pokemon_names_sync w max_pokemons)) =
            POKEMON_BASE_URL # map page_url (page_windows cutoff))"
proof -
  have nb: "nb_poke json_obj max_pokemons = Inr (JInt cutoff)"
    using count cutoff by (simp add: nb_poke_def split: option.splits)
  have sync: "get_pokemon_names_sync w max_pokemons =
      (Get None POKEMON_BASE_URL # fst (names_loop w cutoff 0 []),
       snd (names_loop w cutoff 0 []))"
    using root nb
    by (simp add: get_pokemon_names_sync_def bind_io_http_get json_loads_def)
  have async: "get_pokemon_names_async w client max_pokemons =
      bind_io ([Get (Some client) POKEMON_BASE_URL], Inr ())
        (\<lambda>_. bind_io (gather (page_coroutines w client cutoff 0 []))
           (\<lambda>names_per_page. return_io (concat names_per_page)))"
    using root nb
    by (simp add: get_pokemon_names_async_def bind_io_http_get json_loads_def)
  have spec: "names_spec w max_pokemons = pages_in_order w cutoff"
    using root nb by (simp add: names_spec_def)
  have o_sync: "outcome (get_pokemon_names_sync w max_pokemons) = pages_in_order w cutoff"
    using spec by (simp add: outcome_names_sync)
  have o_async: "outcome (get_pokemon_names_async w client max_pokemons) = pages_in_order w cutoff"
    using o_sync by (simp add: outcome_def snd_names_async)
  have r_async: "requests (fst (get_pokemon_names_async w client max_pokemons)) =
      POKEMON_BASE_URL # map page_url (page_windows cutoff)"
    by (simp add: async fst_bind_io requests_page_coroutines split: sum.splits)
  have r_sync: "requests (fst (get_pokemon_names_sync w max_pokemons)) =
      POKEMON_BASE_URL # map page_url (page_windows cutoff)"
    if "outcome (get_pokemon_names_sync w max_pokemons) \<noteq> None"
  proof -
    from that obtain result where "snd (names_loop w cutoff 0 []) = Inr result"
      by (auto simp: outcome_def sync split: sum.splits)
    from requests_names_loop [OF this] show ?thesis
      by (simp add: sync window_offsets_page_windows)
  qed
  from root_requested_first nb o_sync o_async r_async r_sync
  show ?thesis
    by blast
qed

theorem cutoff_choice_witness:
  "get_pokemon_names_sync pages_world None =
     ([Get None POKEMON_BASE_URL,
       Print (''retrieving url: '' @ page_url 0), Get None (page_url 0),
       Print (''retrieving url: '' @ page_url 10), Get None (page_url 10),
       Print (''retrieving url: '' @ page_url 20), Get None (page_url 20)],
      Inr [JStr ''a'', JStr ''b'', JStr ''c'', JStr ''d'', JStr ''e''])
   \<and> requests (fst (get_pokemon_names_sync pages_world None)) =
       [POKEMON_BASE_URL, page_url 0, page_url 10, page_url 20]
   \<and> requests (fst (get_pokemon_names_async pages_world AsyncClient None)) =
       [POKEMON_BASE_URL, page_url 0, page_url 10, page_url 20]
   \<and> requests (fst (get_pokemon_names_sync pages_world (Some 5))) =
       [POKEMON_BASE_URL, page_url 0]
   \<and> requests (fst (get_pokemon_names_async pages_world AsyncClient (Some 5))) =
       [POKEMON_BASE_URL, page_url 0]
   \<and> outcome (get_pokemon_names_async pages_world AsyncClient (Some 5)) =
       pages_in_order pages_world 5"
proof -
  let ?root = "\<lparr>status_code = 200, content = Some (listing 25 [])\<rparr>"
  have root: "pages_world POKEMON_BASE_URL = Inr ?root \<and> status_code ?root = 200
      \<and> content ?root = Some (listing 25 [])"
    by (simp add: pages_world_def service_def ok_def)
  have count: "subscript (listing 25 []) ''count'' = Inr (JInt 25)"
    by (simp add: listing_def)
  have run: "get_pokemon_names_sync pages_world None =
     ([Get None POKEMON_BASE_URL,
       Print (''retrieving url: '' @ page_url 0), Get None (page_url 0),
       Print (''retrieving url: '' @ page_url 10), Get None (page_url 10),
       Print (''retrieving url: '' @ page_url 20), Get None (page_url 20)],
      Inr [JStr ''a'', JStr ''b'', JStr ''c'', JStr ''d'', JStr ''e''])"
    by code_simp
  have returns: "outcome (get_pokemon_names_sync pages_world None) \<noteq> None"
    "outcome (get_pokemon_names_sync pages_world (Some 5)) \<noteq> None"
    by code_simp+
  have windows: "page_windows 25 = [0, 10, 20]" "page_windows 5 = [0]"
    by code_simp+
  from cutoff_choice [of pages_world ?root "listing 25 []" 25 25 None AsyncClient]
    cutoff_choice [of pages_world ?root "listing 25 []" 25 5 "Some 5" AsyncClient]
    root count returns run
  show ?thesis
    unfolding windows by simp
qed

text \<open>
  With a maximum from the caller the count is not needed: on a root that answers 200 with an
  object without a count, the call with a maximum of 5 returns the names of the first page.
\<close>

lemma maximum_without_count:
  "countless_world POKEMON_BASE_URL = ok (JObj [])
   \<and> get_pokemon_names_sync countless_world (Some 5) =
       ([Get None POKEMON_BASE_URL, Print (''retrieving url: '' @ page_url 0),
         Get None (page_url 0)], Inr [JStr ''a''])
   \<and> get_pokemon_names_async countless_world AsyncClient (Some 5) =
       ([Get (Some AsyncClient) POKEMON_BASE_URL, Print (''retrieving url: '' @ page_url 0),
         Get (Some AsyncClient) (page_url 0)], Inr [JStr ''a''])"
  by code_simp

end
